theory Spec2Isabelle
  imports Complex_Main
begin

section \<open>Conversion between colour spaces (colormath/color\_conversions.py)\<close>

text \<open>
  The module is Python 2 source (it uses the \<^verbatim>\<open>print\<close> statement and has no
  \<^verbatim>\<open>from __future__ import division\<close>). Its colour objects come from the module
  \<^verbatim>\<open>colorobjs\<close> and its tables from the module \<^verbatim>\<open>constants\<close>; both are imported
  by the source and defined elsewhere, so a freshly constructed colour object and every
  table are parameters of the functions below.

  Python floats are idealised as real numbers, with the sign of a float zero kept where
  the code can tell it (\<open>Lab_to_LCH\<close>). An exception is a value \<open>Inl e\<close> of the result
  type \<open>error + 'a\<close>.
\<close>

subsection \<open>Errors\<close>

datatype error =
    ZeroDivisionError    \<comment> \<open>division by an int or float zero\<close>
  | KeyError             \<comment> \<open>a key that a table does not have\<close>
  | UnboundLocalError    \<comment> \<open>a local variable read before any assignment\<close>
  | ValueError           \<comment> \<open>\<^verbatim>\<open>math.pow\<close> outside its domain\<close>

subsection \<open>Colour objects\<close>

text \<open>
  Every colour object carries \<^verbatim>\<open>illuminant\<close> and \<^verbatim>\<open>observer\<close>. A Python object
  accepts an assignment to any attribute name; \<open>other_attrs\<close> holds the numeric instance
  attributes that are not fields of the object's class.
\<close>

record ColorBase =
  illuminant :: string
  observer :: string
  other_attrs :: "string \<rightharpoonup> real"

record XYZColor = ColorBase +
  xyz_x :: real
  xyz_y :: real
  xyz_z :: real

record xyYColor = ColorBase +
  xyy_x :: real
  xyy_y :: real
  xyy_Y :: real

definition transfer_common ::
  "'a ColorBase_scheme \<Rightarrow> 'b ColorBase_scheme \<Rightarrow> 'b ColorBase_scheme" where
  "transfer_common old_cobj new_cobj =
     new_cobj\<lparr>illuminant := illuminant old_cobj, observer := observer old_cobj\<rparr>"

subsection \<open>XYZ and xyY\<close>

text \<open>
  In each conversion the first argument is the object that the constructor call of the
  source returns (\<^verbatim>\<open>colorobjs.xyYColor()\<close> here); the second is \<^verbatim>\<open>cobj\<close>. The fields
  of both objects are floats, and a float division by zero raises in Python.
\<close>

definition XYZ_to_xyY :: "xyYColor \<Rightarrow> XYZColor \<Rightarrow> error + xyYColor" where
  "XYZ_to_xyY fresh cobj =
     (let xyycolor = transfer_common cobj fresh in
      if xyz_x cobj + xyz_y cobj + xyz_z cobj = 0 then Inl ZeroDivisionError
      else
        let xyycolor = xyycolor\<lparr>xyy_x := xyz_x cobj / (xyz_x cobj + xyz_y cobj + xyz_z cobj)\<rparr>;
            xyycolor = xyycolor\<lparr>xyy_y := xyz_y cobj / (xyz_x cobj + xyz_y cobj + xyz_z cobj)\<rparr>;
            xyycolor = xyycolor\<lparr>xyy_Y := xyz_y cobj\<rparr>
        in Inr xyycolor)"

definition xyY_to_XYZ :: "XYZColor \<Rightarrow> xyYColor \<Rightarrow> error + XYZColor" where
  "xyY_to_XYZ fresh cobj =
     (let xyzcolor = transfer_common cobj fresh in
      if xyy_y cobj = 0 then Inl ZeroDivisionError
      else
        let xyzcolor = xyzcolor\<lparr>xyz_x := (xyy_x cobj * xyy_Y cobj) / xyy_y cobj\<rparr>;
            xyzcolor = xyzcolor\<lparr>xyz_y := xyy_Y cobj\<rparr>;
            xyzcolor = xyzcolor\<lparr>xyz_z :=
              ((1 - xyy_x cobj - xyy_y cobj) * xyz_y xyzcolor) / xyy_y cobj\<rparr>
        in Inr xyzcolor)"

subsection \<open>Reference whites\<close>

record illum_xyz =
  illum_X :: real
  illum_Y :: real
  illum_Z :: real

text \<open>
  Modelled from the spec: the method \<^verbatim>\<open>get_illuminant_xyz\<close> of the colour objects is
  defined in \<^verbatim>\<open>colorobjs\<close>, which is not among the sources. By the spec it consults the
  illuminant reference-white table, by the observer and the illuminant of the object,
  returns the reference tristimulus values \<open>X\<close>, \<open>Y\<close>, \<open>Z\<close>, and fails with a lookup
  error on an identifier that the table does not have. The table is a parameter.
\<close>

definition get_illuminant_xyz ::
  "(string \<Rightarrow> string \<rightharpoonup> illum_xyz) \<Rightarrow> 'a ColorBase_scheme \<Rightarrow> error + illum_xyz" where
  "get_illuminant_xyz ILLUMINANTS cobj =
     (case ILLUMINANTS (observer cobj) (illuminant cobj) of
        None \<Rightarrow> Inl KeyError
      | Some illum \<Rightarrow> Inr illum)"

subsection \<open>Lab and LCH\<close>

record LabColor = ColorBase +
  lab_l :: real
  lab_a :: real
  lab_b :: real

record LCHColor = ColorBase +
  lch_l :: real
  lch_c :: real
  lch_h :: real

text \<open>
  A float zero carries a sign, which a real number does not, and \<^verbatim>\<open>math.atan2\<close> tells
  \<^verbatim>\<open>-0.0\<close> from \<^verbatim>\<open>0.0\<close>. So the Lab object that \<open>Lab_to_LCH\<close> reads carries, beside
  the values of \<^verbatim>\<open>lab_a\<close> and \<^verbatim>\<open>lab_b\<close>, whether each of them is the negative zero; the
  flag of a value that is not 0 is never read.
\<close>

record LabColor_zeros = LabColor +
  lab_a_negzero :: bool
  lab_b_negzero :: bool

text \<open>
  \<^verbatim>\<open>math.atan2(y, x)\<close>, with the flags of \<open>y\<close> and \<open>x\<close>: the angle of the point \<open>(x, y)\<close>
  in \<open>[-\<pi>, \<pi>]\<close>. For \<open>y\<close> a zero and \<open>x\<close> negative or the negative zero it is \<open>\<pi>\<close> or
  \<open>-\<pi>\<close>, with the sign of \<open>y\<close>; for \<open>y\<close> a zero and \<open>x\<close> positive or the positive zero it
  is a zero.
\<close>

definition atan2 :: "real \<Rightarrow> bool \<Rightarrow> real \<Rightarrow> bool \<Rightarrow> real" where
  "atan2 y y_negzero x x_negzero =
     (if 0 < x then arctan (y / x)
      else if x < 0
        then (if 0 < y \<or> (y = 0 \<and> \<not> y_negzero) then arctan (y / x) + pi
              else arctan (y / x) - pi)
      else if 0 < y then pi / 2
      else if y < 0 then - (pi / 2)
      else if x_negzero then (if y_negzero then - pi else pi)
      else 0)"

definition Lab_to_LCH :: "LCHColor \<Rightarrow> LabColor_zeros \<Rightarrow> LCHColor" where
  "Lab_to_LCH fresh cobj =
     (let lchcolor = transfer_common cobj fresh;
          lchcolor = lchcolor\<lparr>lch_l := lab_l cobj\<rparr>;
          lchcolor = lchcolor\<lparr>lch_c := sqrt ((lab_a cobj)\<^sup>2 + (lab_b cobj)\<^sup>2)\<rparr>;
          lchcolor = lchcolor\<lparr>lch_h :=
            atan2 (lab_b cobj) (lab_b_negzero cobj) (lab_a cobj) (lab_a_negzero cobj)\<rparr>
      in if lch_h lchcolor > 0
         then lchcolor\<lparr>lch_h := (lch_h lchcolor / pi) * 180\<rparr>
         else lchcolor\<lparr>lch_h := 360 - (\<bar>lch_h lchcolor\<bar> / pi) * 180\<rparr>)"

text \<open>
  \<open>XYZ_to_Lab\<close> and \<open>Lab_to_XYZ\<close> repeat one block per channel; the blocks are
  \<open>lab_encode\<close> (\<^verbatim>\<open>math.pow(t, 1.0 / 3.0)\<close> above the threshold, where \<open>t\<close> is positive)
  and \<open>lab_decode\<close>.
\<close>

definition lab_encode :: "real \<Rightarrow> real" where
  "lab_encode t = (if t > 0.008856 then t powr (1 / 3) else (7.787 * t) + (16 / 116))"

definition lab_decode :: "real \<Rightarrow> real" where
  "lab_decode t = (if t ^ 3 > 0.008856 then t ^ 3 else (t - 16 / 116) / 7.787)"

definition XYZ_to_Lab ::
  "(string \<Rightarrow> string \<rightharpoonup> illum_xyz) \<Rightarrow> LabColor \<Rightarrow> XYZColor \<Rightarrow> error + LabColor" where
  "XYZ_to_Lab ILLUMINANTS fresh cobj =
     (case get_illuminant_xyz ILLUMINANTS cobj of
        Inl e \<Rightarrow> Inl e
      | Inr illum \<Rightarrow>
          let labcolor = transfer_common cobj fresh in
          if illum_X illum = 0 \<or> illum_Y illum = 0 \<or> illum_Z illum = 0
          then Inl ZeroDivisionError
          else
            let temp_x = (xyz_x cobj * 100) / illum_X illum;
                temp_y = (xyz_y cobj * 100) / illum_Y illum;
                temp_z = (xyz_z cobj * 100) / illum_Z illum;
                temp_x = lab_encode temp_x;
                temp_y = lab_encode temp_y;
                temp_z = lab_encode temp_z;
                labcolor = labcolor\<lparr>lab_l := (116 * temp_y) - 16\<rparr>;
                labcolor = labcolor\<lparr>lab_a := 500 * (temp_x - temp_y)\<rparr>;
                labcolor = labcolor\<lparr>lab_b := 200 * (temp_y - temp_z)\<rparr>
            in Inr labcolor)"

text \<open>
  \<open>Lab_to_XYZ\<close> assigns to attributes of \<^verbatim>\<open>cobj\<close>, its argument, in its last three
  statements. The result is the pair of \<^verbatim>\<open>cobj\<close> as the call leaves it and of the
  object returned.
\<close>

definition Lab_to_XYZ ::
  "(string \<Rightarrow> string \<rightharpoonup> illum_xyz) \<Rightarrow> XYZColor \<Rightarrow> LabColor \<Rightarrow> error + (LabColor \<times> XYZColor)" where
  "Lab_to_XYZ ILLUMINANTS fresh cobj =
     (case get_illuminant_xyz ILLUMINANTS cobj of
        Inl e \<Rightarrow> Inl e
      | Inr illum \<Rightarrow>
          let xyzcolor = transfer_common cobj fresh;
              xyzcolor = xyzcolor\<lparr>xyz_y := (lab_l cobj + 16) / 116\<rparr>;
              xyzcolor = xyzcolor\<lparr>xyz_x := lab_a cobj / 500 + xyz_y xyzcolor\<rparr>;
              xyzcolor = xyzcolor\<lparr>xyz_z := xyz_y xyzcolor - lab_b cobj / 200\<rparr>;
              xyzcolor = xyzcolor\<lparr>xyz_y := lab_decode (xyz_y xyzcolor)\<rparr>;
              xyzcolor = xyzcolor\<lparr>xyz_x := lab_decode (xyz_x xyzcolor)\<rparr>;
              xyzcolor = xyzcolor\<lparr>xyz_z := lab_decode (xyz_z xyzcolor)\<rparr>;
              cobj = cobj\<lparr>other_attrs :=
                (other_attrs cobj)(''xyz_x'' \<mapsto> (illum_X illum * xyz_x xyzcolor) / 100)\<rparr>;
              cobj = cobj\<lparr>other_attrs :=
                (other_attrs cobj)(''xyz_y'' \<mapsto> (illum_Y illum * xyz_y xyzcolor) / 100)\<rparr>;
              cobj = cobj\<lparr>other_attrs :=
                (other_attrs cobj)(''xyz_z'' \<mapsto> (illum_Z illum * xyz_z xyzcolor) / 100)\<rparr>
          in Inr (cobj, xyzcolor))"

subsection \<open>Example inputs\<close>

text \<open>
  The reference whites of the illuminants D65 and D50 for the 2 degree observer, on the
  scale of 100 that the conversions divide by, as the entries of a reference-white table.
\<close>

definition d65_white :: illum_xyz where
  "d65_white = \<lparr>illum_X = 95.047, illum_Y = 100, illum_Z = 108.883\<rparr>"

definition d50_white :: illum_xyz where
  "d50_white = \<lparr>illum_X = 96.422, illum_Y = 100, illum_Z = 82.521\<rparr>"

definition white_table :: "string \<Rightarrow> string \<rightharpoonup> illum_xyz" where
  "white_table =
     (\<lambda>obs. if obs = ''2'' then [''d65'' \<mapsto> d65_white, ''d50'' \<mapsto> d50_white]
            else Map.empty)"

text \<open>Objects as a constructor may leave them: default metadata, every number 0.\<close>

definition new_XYZColor :: XYZColor where
  "new_XYZColor = \<lparr>illuminant = ''d50'', observer = ''2'', other_attrs = Map.empty,
     xyz_x = 0, xyz_y = 0, xyz_z = 0\<rparr>"

definition new_LabColor :: LabColor where
  "new_LabColor = \<lparr>illuminant = ''d50'', observer = ''2'', other_attrs = Map.empty,
     lab_l = 0, lab_a = 0, lab_b = 0\<rparr>"

definition xyz_d65 :: "real \<Rightarrow> real \<Rightarrow> real \<Rightarrow> XYZColor" where
  "xyz_d65 x y z = \<lparr>illuminant = ''d65'', observer = ''2'', other_attrs = Map.empty,
     xyz_x = x, xyz_y = y, xyz_z = z\<rparr>"

definition lab_d65 :: "real \<Rightarrow> real \<Rightarrow> real \<Rightarrow> LabColor" where
  "lab_d65 l a b = \<lparr>illuminant = ''d65'', observer = ''2'', other_attrs = Map.empty,
     lab_l = l, lab_a = a, lab_b = b\<rparr>"

subsection \<open>Luv\<close>

record LuvColor = ColorBase +
  luv_l :: real
  luv_u :: real
  luv_v :: real

text \<open>
  The threshold blocks of \<open>XYZ_to_Luv\<close> and \<open>Luv_to_XYZ\<close> on \<^verbatim>\<open>temp_y\<close> and
  \<^verbatim>\<open>var_Y\<close> are those of the Lab conversions, \<open>lab_encode\<close> and \<open>lab_decode\<close>. Each
  division raises on a zero divisor, in the order of the statements.
\<close>

definition XYZ_to_Luv ::
  "(string \<Rightarrow> string \<rightharpoonup> illum_xyz) \<Rightarrow> LuvColor \<Rightarrow> XYZColor \<Rightarrow> error + LuvColor" where
  "XYZ_to_Luv ILLUMINANTS fresh cobj =
     (let luvcolor = transfer_common cobj fresh;
          temp_x = xyz_x cobj * 100;
          temp_y = xyz_y cobj * 100;
          temp_z = xyz_z cobj * 100
      in if temp_x + (15 * temp_y) + (3 * temp_z) = 0 then Inl ZeroDivisionError
         else
           let luvcolor = luvcolor\<lparr>luv_u :=
                 (4 * temp_x) / (temp_x + (15 * temp_y) + (3 * temp_z))\<rparr>;
               luvcolor = luvcolor\<lparr>luv_v :=
                 (9 * temp_y) / (temp_x + (15 * temp_y) + (3 * temp_z))\<rparr>
           in case get_illuminant_xyz ILLUMINANTS luvcolor of
                Inl e \<Rightarrow> Inl e
              | Inr illum \<Rightarrow>
                  if illum_Y illum = 0 then Inl ZeroDivisionError
                  else
                    let temp_y = temp_y / illum_Y illum;
                        temp_y = lab_encode temp_y
                    in if illum_X illum + (15 * illum_Y illum) + (3 * illum_Z illum) = 0
                       then Inl ZeroDivisionError
                       else
                         let ref_U = (4 * illum_X illum) /
                               (illum_X illum + (15 * illum_Y illum) + (3 * illum_Z illum));
                             ref_V = (9 * illum_Y illum) /
                               (illum_X illum + (15 * illum_Y illum) + (3 * illum_Z illum));
                             luvcolor = luvcolor\<lparr>luv_l := (116 * temp_y) - 16\<rparr>;
                             luvcolor = luvcolor\<lparr>luv_u :=
                               13 * luv_l luvcolor * (luv_u luvcolor - ref_U)\<rparr>;
                             luvcolor = luvcolor\<lparr>luv_v :=
                               13 * luv_l luvcolor * (luv_v luvcolor - ref_V)\<rparr>
                         in Inr luvcolor)"

definition Luv_to_XYZ ::
  "(string \<Rightarrow> string \<rightharpoonup> illum_xyz) \<Rightarrow> XYZColor \<Rightarrow> LuvColor \<Rightarrow> error + XYZColor" where
  "Luv_to_XYZ ILLUMINANTS fresh cobj =
     (let xyzcolor = transfer_common cobj fresh
      in case get_illuminant_xyz ILLUMINANTS xyzcolor of
           Inl e \<Rightarrow> Inl e
         | Inr illum \<Rightarrow>
             if illum_X illum + (15 * illum_Y illum) + (3 * illum_Z illum) = 0
             then Inl ZeroDivisionError
             else
               let ref_U = (4 * illum_X illum) /
                     (illum_X illum + (15 * illum_Y illum) + (3 * illum_Z illum));
                   ref_V = (9 * illum_Y illum) /
                     (illum_X illum + (15 * illum_Y illum) + (3 * illum_Z illum))
               in if 13 * luv_l cobj = 0 then Inl ZeroDivisionError
                  else
                    let var_U = luv_u cobj / (13 * luv_l cobj) + ref_U;
                        var_V = luv_u cobj / (13 * luv_l cobj) + ref_V;
                        var_Y = (luv_l cobj + 16) / 116;
                        var_Y = lab_decode var_Y;
                        xyzcolor = xyzcolor\<lparr>xyz_y := var_Y * 100\<rparr>
                    in if (var_U - 4) * var_V - var_U * var_V = 0 then Inl ZeroDivisionError
                       else
                         let xyzcolor = xyzcolor\<lparr>xyz_x :=
                               - (9 * xyz_y xyzcolor * var_U) /
                                 ((var_U - 4) * var_V - var_U * var_V)\<rparr>
                         in if 3 * var_V = 0 then Inl ZeroDivisionError
                            else
                              let xyzcolor = xyzcolor\<lparr>xyz_z :=
                                    (9 * xyz_y xyzcolor - (15 * var_V * xyz_y xyzcolor)
                                       - (var_V * xyz_x xyzcolor)) / (3 * var_V)\<rparr>
                              in Inr xyzcolor)"

definition new_LuvColor :: LuvColor where
  "new_LuvColor = \<lparr>illuminant = ''d50'', observer = ''2'', other_attrs = Map.empty,
     luv_l = 0, luv_u = 0, luv_v = 0\<rparr>"

subsection \<open>Python 2 numbers\<close>

text \<open>
  The channels of an RGB object are ints or floats: \<open>XYZ_to_RGB\<close> stores ints
  (\<^verbatim>\<open>int(math.floor(...))\<close>). In Python 2 the operator \<^verbatim>\<open>/\<close> on two ints is the floor
  division, and on an int and a float the float division; \<^verbatim>\<open>-\<close> on two ints is an int.
\<close>

datatype num = PyInt int | PyFloat real

fun val :: "num \<Rightarrow> real" where
  "val (PyInt i) = real_of_int i"
| "val (PyFloat x) = x"

fun py_div :: "num \<Rightarrow> num \<Rightarrow> error + num" where
  "py_div (PyInt a) (PyInt b) =
     (if b = 0 then Inl ZeroDivisionError else Inr (PyInt (a div b)))"
| "py_div a b =
     (if val b = 0 then Inl ZeroDivisionError else Inr (PyFloat (val a / val b)))"

fun py_sub :: "num \<Rightarrow> num \<Rightarrow> num" where
  "py_sub (PyInt a) (PyInt b) = PyInt (a - b)"
| "py_sub a b = PyFloat (val a - val b)"

subsection \<open>RGB, CMY and CMYK\<close>

record RGBColor = ColorBase +
  rgb_r :: num
  rgb_g :: num
  rgb_b :: num

record CMYColor = ColorBase +
  cmy_c :: num
  cmy_m :: num
  cmy_y :: num

record CMYKColor = ColorBase +
  cmyk_c :: real
  cmyk_m :: real
  cmyk_y :: real
  cmyk_k :: real

text \<open>The argument \<^verbatim>\<open>cdict\<close> of the next two functions is never read.\<close>

definition RGB_to_CMY :: "CMYColor \<Rightarrow> RGBColor \<Rightarrow> 'd \<Rightarrow> error + CMYColor" where
  "RGB_to_CMY fresh cobj cdict =
     (let cmycolor = transfer_common cobj fresh
      in case py_div (rgb_r cobj) (PyInt 255) of
           Inl e \<Rightarrow> Inl e
         | Inr q_r \<Rightarrow>
             let cmycolor = cmycolor\<lparr>cmy_c := py_sub (PyInt 1) q_r\<rparr>
             in case py_div (rgb_g cobj) (PyInt 255) of
                  Inl e \<Rightarrow> Inl e
                | Inr q_g \<Rightarrow>
                    let cmycolor = cmycolor\<lparr>cmy_m := py_sub (PyInt 1) q_g\<rparr>
                    in case py_div (rgb_b cobj) (PyInt 255) of
                         Inl e \<Rightarrow> Inl e
                       | Inr q_b \<Rightarrow>
                           let cmycolor = cmycolor\<lparr>cmy_y := py_sub (PyInt 1) q_b\<rparr>
                           in Inr cmycolor)"

text \<open>
  In \<open>CMY_to_CMYK\<close> the comparisons are numeric whatever the operands are, and the
  divisor \<^verbatim>\<open>1.0 - var_k\<close> is a float and not 0 in its branch, so every quotient is a
  float. No statement assigns \<^verbatim>\<open>cmykcolor.cmyk_k\<close>.
\<close>

definition CMY_to_CMYK :: "CMYKColor \<Rightarrow> CMYColor \<Rightarrow> 'd \<Rightarrow> CMYKColor" where
  "CMY_to_CMYK fresh cobj cdict =
     (let cmykcolor = transfer_common cobj fresh;
          var_k = 1;
          var_k = (if val (cmy_c cobj) < var_k then val (cmy_c cobj) else var_k);
          var_k = (if val (cmy_m cobj) < var_k then val (cmy_m cobj) else var_k);
          var_k = (if val (cmy_y cobj) < var_k then val (cmy_y cobj) else var_k)
      in if var_k = 1
         then
           let cmykcolor = cmykcolor\<lparr>cmyk_c := 0\<rparr>;
               cmykcolor = cmykcolor\<lparr>cmyk_m := 0\<rparr>;
               cmykcolor = cmykcolor\<lparr>cmyk_y := 0\<rparr>
           in cmykcolor
         else
           let cmykcolor = cmykcolor\<lparr>cmyk_c := (val (cmy_c cobj) - var_k) / (1 - var_k)\<rparr>;
               cmykcolor = cmykcolor\<lparr>cmyk_m := (val (cmy_m cobj) - var_k) / (1 - var_k)\<rparr>;
               cmykcolor = cmykcolor\<lparr>cmyk_y := (val (cmy_y cobj) - var_k) / (1 - var_k)\<rparr>
           in cmykcolor)"

definition new_CMYColor :: CMYColor where
  "new_CMYColor = \<lparr>illuminant = ''d50'', observer = ''2'', other_attrs = Map.empty,
     cmy_c = PyFloat 0, cmy_m = PyFloat 0, cmy_y = PyFloat 0\<rparr>"

definition rgb_d65 :: "num \<Rightarrow> num \<Rightarrow> num \<Rightarrow> RGBColor" where
  "rgb_d65 r g b = \<lparr>illuminant = ''d65'', observer = ''2'', other_attrs = Map.empty,
     rgb_r = r, rgb_g = g, rgb_b = b\<rparr>"

definition cmy_d65 :: "num \<Rightarrow> num \<Rightarrow> num \<Rightarrow> CMYColor" where
  "cmy_d65 c m y = \<lparr>illuminant = ''d65'', observer = ''2'', other_attrs = Map.empty,
     cmy_c = c, cmy_m = m, cmy_y = y\<rparr>"

subsection \<open>Tables, matrices and library functions of XYZ to RGB\<close>

text \<open>
  \<^verbatim>\<open>str.lower\<close> on the byte strings of Python 2: the letters \<open>A\<close> to \<open>Z\<close> are mapped
  to \<open>a\<close> to \<open>z\<close>.
\<close>

definition lower_char :: "char \<Rightarrow> char" where
  "lower_char c =
     (let n = (of_char c :: nat) in if 65 \<le> n \<and> n \<le> 90 then char_of (n + 32) else c)"

definition lower :: "string \<Rightarrow> string" where
  "lower s = map lower_char s"

text \<open>
  A vector of three numbers, a 3 by 3 matrix as its three rows, and \<^verbatim>\<open>numpy.dot\<close> of a
  vector and a matrix: the row vector times the matrix.
\<close>

type_synonym vec3 = "real \<times> real \<times> real"

type_synonym mat3 = "vec3 \<times> vec3 \<times> vec3"

fun dot :: "vec3 \<Rightarrow> mat3 \<Rightarrow> vec3" where
  "dot (v1, v2, v3) ((m11, m12, m13), (m21, m22, m23), (m31, m32, m33)) =
     (v1 * m11 + v2 * m21 + v3 * m31,
      v1 * m12 + v2 * m22 + v3 * m32,
      v1 * m13 + v2 * m23 + v3 * m33)"

text \<open>
  The entries of \<^verbatim>\<open>constants.RGB_SPECS\<close> and the shape of
  \<^verbatim>\<open>constants.ADAPTATION_MATRICES\<close>, as the source reads them. Both tables are
  parameters; a key that a table lacks raises \<open>KeyError\<close>.
\<close>

record rgb_spec =
  native_illum :: string
  gamma :: real
  conversions :: "string \<rightharpoonup> mat3"

type_synonym rgb_specs = "string \<rightharpoonup> rgb_spec"

type_synonym adaptation_matrices = "string \<rightharpoonup> (string \<rightharpoonup> (string \<rightharpoonup> mat3))"

text \<open>
  \<^verbatim>\<open>math.pow(x, y)\<close> on reals: a domain error for a negative base with a fractional
  exponent and for 0 to a negative power.
\<close>

definition math_pow :: "real \<Rightarrow> real \<Rightarrow> error + real" where
  "math_pow x y =
     (if 0 < x then Inr (x powr y)
      else if x = 0 then (if y < 0 then Inl ValueError else if y = 0 then Inr 1 else Inr 0)
      else if y = of_int \<lfloor>y\<rfloor> then Inr (x powi \<lfloor>y\<rfloor>)
      else Inl ValueError)"

definition apply_XYZ_transformation ::
  "adaptation_matrices \<Rightarrow> XYZColor \<Rightarrow> string \<Rightarrow> string \<Rightarrow> string \<Rightarrow> error + vec3" where
  "apply_XYZ_transformation ADAPTATION_MATRICES cobj orig_illum targ_illum adaptation =
     (let orig_illum = lower orig_illum;
          targ_illum = lower targ_illum;
          adaptation = lower adaptation
      in case ADAPTATION_MATRICES orig_illum of
           None \<Rightarrow> Inl KeyError
         | Some by_target \<Rightarrow>
             (case by_target targ_illum of
                None \<Rightarrow> Inl KeyError
              | Some by_method \<Rightarrow>
                  (case by_method adaptation of
                     None \<Rightarrow> Inl KeyError
                   | Some transform_matrix \<Rightarrow>
                       Inr (dot (xyz_x cobj, xyz_y cobj, xyz_z cobj) transform_matrix))))"

definition apply_RGB_matrix ::
  "rgb_specs \<Rightarrow> real \<Rightarrow> real \<Rightarrow> real \<Rightarrow> string \<Rightarrow> string \<Rightarrow> error + vec3" where
  "apply_RGB_matrix RGB_SPECS var1 var2 var3 rgb_type convtype =
     (let rgb_type = lower rgb_type;
          convtype = lower convtype
      in case RGB_SPECS rgb_type of
           None \<Rightarrow> Inl KeyError
         | Some spec \<Rightarrow>
             (case conversions spec convtype of
                None \<Rightarrow> Inl KeyError
              | Some rgb_matrix \<Rightarrow> Inr (dot (var1, var2, var3) rgb_matrix)))"

subsection \<open>XYZ to RGB\<close>

text \<open>
  \<open>XYZ_to_RGB\<close> repeats three blocks per channel. \<open>srgb_compand\<close> is the block of the
  sRGB branch, where \<^verbatim>\<open>math.pow\<close> is applied to a positive base only.
  \<open>gamma_compand\<close> is the block of the other branch: the clamp of a negative channel
  to 0, then \<^verbatim>\<open>math.pow(channel, 1 / gamma)\<close>. \<open>scale_channel\<close> is the tail: the
  clamp at 0, \<^verbatim>\<open>int(math.floor(0.5 + channel * 255))\<close>, and the cap at 255.
\<close>

definition srgb_compand :: "real \<Rightarrow> real" where
  "srgb_compand v =
     (if v > 0.0031308 then (1.055 * v powr (1 / 2.4)) - 0.055 else v * 12.92)"

definition gamma_compand :: "real \<Rightarrow> real \<Rightarrow> error + real" where
  "gamma_compand gam v =
     (let v = (if v < 0 then 0 else v)
      in if gam = 0 then Inl ZeroDivisionError else math_pow v (1 / gam))"

definition scale_channel :: "real \<Rightarrow> int" where
  "scale_channel v =
     (let v = (if v < 0 then 0 else v);
          n = \<lfloor>0.5 + v * 255\<rfloor>
      in if n > 255 then 255 else n)"

text \<open>
  The locals \<^verbatim>\<open>temp_X\<close>, \<^verbatim>\<open>temp_Y\<close>, \<^verbatim>\<open>temp_Z\<close> are assigned only inside
  \<^verbatim>\<open>if cobj.illuminant != target_illum\<close>; they are \<open>None\<close> while unassigned, and
  reading an unassigned local raises \<open>UnboundLocalError\<close>. The argument \<^verbatim>\<open>debug\<close>
  only prints and is left out.
\<close>

definition XYZ_to_RGB ::
  "rgb_specs \<Rightarrow> adaptation_matrices \<Rightarrow> (string \<Rightarrow> string \<rightharpoonup> illum_xyz) \<Rightarrow>
   RGBColor \<Rightarrow> XYZColor \<Rightarrow> string \<Rightarrow> error + RGBColor" where
  "XYZ_to_RGB RGB_SPECS ADAPTATION_MATRICES ILLUMINANTS fresh cobj target_rgb =
     (let target_rgb = lower target_rgb;
          rgbcolor = transfer_common cobj fresh
      in case RGB_SPECS target_rgb of
           None \<Rightarrow> Inl KeyError
         | Some spec \<Rightarrow>
      let target_illum = native_illum spec
      in case get_illuminant_xyz ILLUMINANTS cobj of
           Inl e \<Rightarrow> Inl e
         | Inr illum \<Rightarrow>
      case (if illuminant cobj \<noteq> target_illum
            then (case apply_XYZ_transformation ADAPTATION_MATRICES cobj
                         (illuminant cobj) target_illum ''bradford'' of
                    Inl e \<Rightarrow> Inl e
                  | Inr temps \<Rightarrow> Inr (Some temps))
            else Inr None) of
           Inl e \<Rightarrow> Inl e
         | Inr None \<Rightarrow> Inl UnboundLocalError
         | Inr (Some (temp_X, temp_Y, temp_Z)) \<Rightarrow>
      case apply_RGB_matrix RGB_SPECS temp_X temp_Y temp_Z target_rgb ''XYZ_to_RGB'' of
           Inl e \<Rightarrow> Inl e
         | Inr (r, g, b) \<Rightarrow>
      case (if target_rgb = ''srgb''
            then Inr (srgb_compand r, srgb_compand g, srgb_compand b)
            else (case gamma_compand (gamma spec) r of
                    Inl e \<Rightarrow> Inl e
                  | Inr r' \<Rightarrow>
                      (case gamma_compand (gamma spec) g of
                         Inl e \<Rightarrow> Inl e
                       | Inr g' \<Rightarrow>
                           (case gamma_compand (gamma spec) b of
                              Inl e \<Rightarrow> Inl e
                            | Inr b' \<Rightarrow> Inr (r', g', b'))))) of
           Inl e \<Rightarrow> Inl e
         | Inr (r, g, b) \<Rightarrow>
             Inr (rgbcolor\<lparr>rgb_r := PyInt (scale_channel r),
                           rgb_g := PyInt (scale_channel g),
                           rgb_b := PyInt (scale_channel b)\<rparr>))"

text \<open>
  Example tables for \<open>XYZ_to_RGB\<close>: the sRGB entry with native illuminant D65, and one
  adaptation entry, from D50 to D65. Both matrices are the unit matrix, which keeps the
  linear channels of the examples in sight.
\<close>

definition unit_matrix :: mat3 where
  "unit_matrix = ((1, 0, 0), (0, 1, 0), (0, 0, 1))"

definition example_specs :: rgb_specs where
  "example_specs =
     [''srgb'' \<mapsto> \<lparr>native_illum = ''d65'', gamma = 2.2,
                     conversions = [''xyz_to_rgb'' \<mapsto> unit_matrix]\<rparr>]"

definition example_adaptation :: adaptation_matrices where
  "example_adaptation = [''d50'' \<mapsto> [''d65'' \<mapsto> [''bradford'' \<mapsto> unit_matrix]]]"

definition new_RGBColor :: RGBColor where
  "new_RGBColor = \<lparr>illuminant = ''d50'', observer = ''2'', other_attrs = Map.empty,
     rgb_r = PyFloat 0, rgb_g = PyFloat 0, rgb_b = PyFloat 0\<rparr>"

definition xyz_d50 :: "real \<Rightarrow> real \<Rightarrow> real \<Rightarrow> XYZColor" where
  "xyz_d50 x y z = \<lparr>illuminant = ''d50'', observer = ''2'', other_attrs = Map.empty,
     xyz_x = x, xyz_y = y, xyz_z = z\<rparr>"

section \<open>Properties\<close>

subsection \<open>xyY to XYZ\<close>

text \<open>
  Claim C8. \<open>xyY_to_XYZ\<close> applied to an input whose chromaticity \<open>y\<close> is 0 fails (the
  division raises \<open>ZeroDivisionError\<close>) and returns no value; for every input with
  \<open>y \<noteq> 0\<close> it returns \<open>X = x * Y / y\<close>, \<open>Y\<close>, \<open>Z = (1 - x - y) * Y / y\<close>, with the
  illuminant and the observer of the input.
\<close>

theorem xyY_to_XYZ_spec:
  "(xyy_y cobj = 0 \<longrightarrow> xyY_to_XYZ fresh cobj = Inl ZeroDivisionError) \<and>
   (xyy_y cobj \<noteq> 0 \<longrightarrow>
      (\<exists>r. xyY_to_XYZ fresh cobj = Inr r \<and>
           xyz_x r = xyy_x cobj * xyy_Y cobj / xyy_y cobj \<and>
           xyz_y r = xyy_Y cobj \<and>
           xyz_z r = (1 - xyy_x cobj - xyy_y cobj) * xyy_Y cobj / xyy_y cobj \<and>
           illuminant r = illuminant cobj \<and> observer r = observer cobj))"
  by (simp add: xyY_to_XYZ_def transfer_common_def Let_def)

theorem xyY_to_XYZ_spec_witness:
  "xyY_to_XYZ
     \<lparr>illuminant = ''d50'', observer = ''2'', other_attrs = Map.empty,
      xyz_x = 0, xyz_y = 0, xyz_z = 0\<rparr>
     \<lparr>illuminant = ''d65'', observer = ''2'', other_attrs = Map.empty,
      xyy_x = 1/4, xyy_y = 0, xyy_Y = 1/2\<rparr> = Inl ZeroDivisionError \<and>
   (\<exists>r. xyY_to_XYZ
     \<lparr>illuminant = ''d50'', observer = ''2'', other_attrs = Map.empty,
      xyz_x = 0, xyz_y = 0, xyz_z = 0\<rparr>
     \<lparr>illuminant = ''d65'', observer = ''2'', other_attrs = Map.empty,
      xyy_x = 1/4, xyy_y = 1/2, xyy_Y = 1/2\<rparr> = Inr r \<and>
     xyz_x r = 1/4 \<and> xyz_y r = 1/2 \<and> xyz_z r = 1/4 \<and>
     illuminant r = ''d65'' \<and> observer r = ''2'')"
  using
    xyY_to_XYZ_spec [of
      "\<lparr>illuminant = ''d65'', observer = ''2'', other_attrs = Map.empty,
        xyy_x = 1/4, xyy_y = 0, xyy_Y = 1/2\<rparr>"
      "\<lparr>illuminant = ''d50'', observer = ''2'', other_attrs = Map.empty,
        xyz_x = 0, xyz_y = 0, xyz_z = 0\<rparr>"]
    xyY_to_XYZ_spec [of
      "\<lparr>illuminant = ''d65'', observer = ''2'', other_attrs = Map.empty,
        xyy_x = 1/4, xyy_y = 1/2, xyy_Y = 1/2\<rparr>"
      "\<lparr>illuminant = ''d50'', observer = ''2'', other_attrs = Map.empty,
        xyz_x = 0, xyz_y = 0, xyz_z = 0\<rparr>"]
  by simp

subsection \<open>XYZ to xyY\<close>

text \<open>
  Claim C10. \<open>XYZ_to_xyY\<close> divides by \<open>X + Y + Z\<close> with no guard: on black
  (\<open>X = Y = Z = 0\<close>) the division by zero raises and no chromaticity is returned, and
  the conversion returns a value exactly on the inputs with \<open>X + Y + Z \<noteq> 0\<close>.
\<close>

theorem XYZ_to_xyY_total_iff:
  "XYZ_to_xyY fresh (cobj\<lparr>xyz_x := 0, xyz_y := 0, xyz_z := 0\<rparr>) = Inl ZeroDivisionError \<and>
   ((\<exists>r. XYZ_to_xyY fresh cobj = Inr r) = (xyz_x cobj + xyz_y cobj + xyz_z cobj \<noteq> 0)) \<and>
   ((XYZ_to_xyY fresh cobj = Inl ZeroDivisionError) = (xyz_x cobj + xyz_y cobj + xyz_z cobj = 0))"
  by (simp add: XYZ_to_xyY_def transfer_common_def Let_def)

subsection \<open>The hue of Lab to LCH\<close>

lemma atan2_ge: "- pi \<le> atan2 y ny x nx"
proof -
  have b: "- (pi / 2) < arctan (y / x)" "arctan (y / x) < pi / 2"
    by (rule arctan_lbound, rule arctan_ubound)
  have neg: "x < 0 \<Longrightarrow> y < 0 \<Longrightarrow> 0 < arctan (y / x)"
    by (simp add: zero_less_arctan_iff divide_neg_neg)
  show ?thesis
    using b neg pi_gt_zero by (auto simp: atan2_def)
qed

lemma atan2_le: "atan2 y ny x nx \<le> pi"
proof -
  have b: "- (pi / 2) < arctan (y / x)" "arctan (y / x) < pi / 2"
    by (rule arctan_lbound, rule arctan_ubound)
  have nonpos: "x < 0 \<Longrightarrow> 0 \<le> y \<Longrightarrow> arctan (y / x) \<le> 0"
    by (simp add: arctan_le_zero_iff divide_nonneg_neg)
  show ?thesis
    using b nonpos pi_gt_zero by (auto simp: atan2_def)
qed

lemma lch_h_Lab_to_LCH:
  "lch_h (Lab_to_LCH fresh cobj) =
     (if atan2 (lab_b cobj) (lab_b_negzero cobj) (lab_a cobj) (lab_a_negzero cobj) > 0
      then (atan2 (lab_b cobj) (lab_b_negzero cobj) (lab_a cobj) (lab_a_negzero cobj) / pi)
             * 180
      else 360 - (\<bar>atan2 (lab_b cobj) (lab_b_negzero cobj) (lab_a cobj)
                      (lab_a_negzero cobj)\<bar> / pi) * 180)"
  by (simp add: Lab_to_LCH_def Let_def)

lemma hue_bounds:
  "0 \<le> lch_h (Lab_to_LCH fresh cobj) \<and> lch_h (Lab_to_LCH fresh cobj) \<le> 360"
proof -
  define h where
    "h = atan2 (lab_b cobj) (lab_b_negzero cobj) (lab_a cobj) (lab_a_negzero cobj)"
  have lo: "- pi \<le> h" and hi: "h \<le> pi"
    unfolding h_def by (rule atan2_ge, rule atan2_le)
  have eq: "lch_h (Lab_to_LCH fresh cobj) =
      (if h > 0 then (h / pi) * 180 else 360 - (\<bar>h\<bar> / pi) * 180)"
    unfolding h_def by (rule lch_h_Lab_to_LCH)
  show ?thesis
  proof (cases "h > 0")
    case True
    have "h * 180 / pi \<le> 180"
      using hi pi_gt_zero by (simp add: pos_divide_le_eq)
    moreover have "0 < h * 180 / pi"
      using True pi_gt_zero by simp
    ultimately show ?thesis using True eq by simp
  next
    case False
    have "\<bar>h\<bar> \<le> pi" using False lo by simp
    then have "\<bar>h\<bar> * 180 \<le> 180 * pi" by simp
    then have "\<bar>h\<bar> * 180 / pi \<le> 180"
      using pi_gt_zero by (simp only: pos_divide_le_eq)
    moreover have "0 \<le> \<bar>h\<bar> * 180 / pi"
      using pi_gt_zero by simp
    ultimately show ?thesis using False eq by simp
  qed
qed

text \<open>
  Claim C6, as the code has it. For all \<open>a\<close> and \<open>b\<close> the hue \<open>H\<close> produced by
  \<open>Lab_to_LCH\<close> lies in the closed interval \<open>[0, 360]\<close>: an angle of 0 takes the
  \<^verbatim>\<open>else\<close> branch of \<^verbatim>\<open>if (lchcolor.lch_h > 0)\<close> and becomes 360. The boundary case
  \<open>a = 0\<close>, \<open>b = 0\<close> yields \<open>C = 0\<close>, and \<open>H = 360\<close> when \<open>a\<close> is the positive zero,
  \<open>H = 180\<close> when \<open>a\<close> is the negative zero; the case \<open>a < 0\<close>, \<open>b = 0\<close> yields
  \<open>H = 180\<close>, whatever the sign of the zero \<open>b\<close>.
\<close>

theorem Lab_to_LCH_hue_range:
  "0 \<le> lch_h (Lab_to_LCH fresh cobj) \<and> lch_h (Lab_to_LCH fresh cobj) \<le> 360 \<and>
   (lab_a cobj = 0 \<and> lab_b cobj = 0 \<longrightarrow>
      lch_c (Lab_to_LCH fresh cobj) = 0 \<and>
      lch_h (Lab_to_LCH fresh cobj) = (if lab_a_negzero cobj then 180 else 360)) \<and>
   (lab_a cobj < 0 \<and> lab_b cobj = 0 \<longrightarrow> lch_h (Lab_to_LCH fresh cobj) = 180)"
proof -
  have origin: "lab_a cobj = 0 \<and> lab_b cobj = 0 \<longrightarrow>
      lch_c (Lab_to_LCH fresh cobj) = 0 \<and>
      lch_h (Lab_to_LCH fresh cobj) = (if lab_a_negzero cobj then 180 else 360)"
    using pi_gt_zero by (simp add: Lab_to_LCH_def Let_def atan2_def)
  have left: "lab_a cobj < 0 \<and> lab_b cobj = 0 \<longrightarrow> lch_h (Lab_to_LCH fresh cobj) = 180"
    using pi_gt_zero by (simp add: lch_h_Lab_to_LCH atan2_def)
  show ?thesis using hue_bounds [of fresh cobj] origin left by blast
qed

theorem Lab_to_LCH_hue_range_witness:
  "lch_c (Lab_to_LCH
     \<lparr>illuminant = ''d50'', observer = ''2'', other_attrs = Map.empty,
      lch_l = 0, lch_c = 1, lch_h = 0\<rparr>
     \<lparr>illuminant = ''d65'', observer = ''2'', other_attrs = Map.empty,
      lab_l = 50, lab_a = 0, lab_b = 0,
      lab_a_negzero = False, lab_b_negzero = False\<rparr>) = 0 \<and>
   lch_h (Lab_to_LCH
     \<lparr>illuminant = ''d50'', observer = ''2'', other_attrs = Map.empty,
      lch_l = 0, lch_c = 1, lch_h = 0\<rparr>
     \<lparr>illuminant = ''d65'', observer = ''2'', other_attrs = Map.empty,
      lab_l = 50, lab_a = 0, lab_b = 0,
      lab_a_negzero = False, lab_b_negzero = False\<rparr>) = 360 \<and>
   lch_h (Lab_to_LCH
     \<lparr>illuminant = ''d50'', observer = ''2'', other_attrs = Map.empty,
      lch_l = 0, lch_c = 1, lch_h = 0\<rparr>
     \<lparr>illuminant = ''d65'', observer = ''2'', other_attrs = Map.empty,
      lab_l = 50, lab_a = 0, lab_b = 0,
      lab_a_negzero = True, lab_b_negzero = False\<rparr>) = 180 \<and>
   lch_h (Lab_to_LCH
     \<lparr>illuminant = ''d50'', observer = ''2'', other_attrs = Map.empty,
      lch_l = 0, lch_c = 1, lch_h = 0\<rparr>
     \<lparr>illuminant = ''d65'', observer = ''2'', other_attrs = Map.empty,
      lab_l = 50, lab_a = - 20, lab_b = 0,
      lab_a_negzero = False, lab_b_negzero = True\<rparr>) = 180"
  using
    Lab_to_LCH_hue_range [of
      "\<lparr>illuminant = ''d50'', observer = ''2'', other_attrs = Map.empty,
        lch_l = 0, lch_c = 1, lch_h = 0\<rparr>"
      "\<lparr>illuminant = ''d65'', observer = ''2'', other_attrs = Map.empty,
        lab_l = 50, lab_a = 0, lab_b = 0,
        lab_a_negzero = False, lab_b_negzero = False\<rparr>"]
    Lab_to_LCH_hue_range [of
      "\<lparr>illuminant = ''d50'', observer = ''2'', other_attrs = Map.empty,
        lch_l = 0, lch_c = 1, lch_h = 0\<rparr>"
      "\<lparr>illuminant = ''d65'', observer = ''2'', other_attrs = Map.empty,
        lab_l = 50, lab_a = 0, lab_b = 0,
        lab_a_negzero = True, lab_b_negzero = False\<rparr>"]
    Lab_to_LCH_hue_range [of
      "\<lparr>illuminant = ''d50'', observer = ''2'', other_attrs = Map.empty,
        lch_l = 0, lch_c = 1, lch_h = 0\<rparr>"
      "\<lparr>illuminant = ''d65'', observer = ''2'', other_attrs = Map.empty,
        lab_l = 50, lab_a = - 20, lab_b = 0,
        lab_a_negzero = False, lab_b_negzero = True\<rparr>"]
  by simp

text \<open>
  The claim as the spec states it, \<open>H < 360\<close> and \<open>H = 0\<close> at \<open>a = 0\<close>, \<open>b = 0\<close>, fails on
  the grey \<open>L = 50\<close>, \<open>a = 0.0\<close>, \<open>b = 0.0\<close>, where \<open>H = 360\<close>.
\<close>

theorem Lab_to_LCH_hue_counterexample:
  "\<not> (lch_h (Lab_to_LCH
     \<lparr>illuminant = ''d50'', observer = ''2'', other_attrs = Map.empty,
      lch_l = 0, lch_c = 1, lch_h = 0\<rparr>
     \<lparr>illuminant = ''d65'', observer = ''2'', other_attrs = Map.empty,
      lab_l = 50, lab_a = 0, lab_b = 0,
      lab_a_negzero = False, lab_b_negzero = False\<rparr>) < 360) \<and>
   lch_h (Lab_to_LCH
     \<lparr>illuminant = ''d50'', observer = ''2'', other_attrs = Map.empty,
      lch_l = 0, lch_c = 1, lch_h = 0\<rparr>
     \<lparr>illuminant = ''d65'', observer = ''2'', other_attrs = Map.empty,
      lab_l = 50, lab_a = 0, lab_b = 0,
      lab_a_negzero = False, lab_b_negzero = False\<rparr>) \<noteq> 0"
  by (simp add: Lab_to_LCH_def Let_def atan2_def transfer_common_def)

subsection \<open>XYZ to Lab and back\<close>

lemma cube_powr_third:
  fixes t :: real
  assumes "0 < t"
  shows "(t powr (1 / 3)) ^ 3 = t"
proof -
  have "(t powr (1 / 3)) ^ 3 = (t powr (1 / 3)) powr 3"
    by (simp add: powr_numeral)
  also have "\<dots> = t powr ((1 / 3) * 3)"
    by (simp only: powr_powr)
  also have "\<dots> = t"
    using assms by simp
  finally show ?thesis .
qed

lemma lab_decode_encode: "lab_decode (lab_encode t) = t"
proof (cases "t > 0.008856")
  case True
  then have "0 < t" by simp
  then have "(t powr (1 / 3)) ^ 3 = t" by (rule cube_powr_third)
  then show ?thesis using True by (simp add: lab_decode_def lab_encode_def)
next
  case False
  define s where "s = 7.787 * t + 16 / 116"
  have "s \<le> 7.787 * 0.008856 + 16 / 116"
    using False by (simp add: s_def)
  then have "s ^ 3 \<le> (7.787 * 0.008856 + 16 / 116 :: real) ^ 3"
    by (rule power_mono_odd [rotated]) simp
  also have "\<dots> \<le> 0.008856"
    by (simp add: power3_eq_cube)
  finally have "\<not> s ^ 3 > 0.008856" by simp
  then have dec: "lab_decode s = (s - 16 / 116) / 7.787"
    by (simp add: lab_decode_def)
  have enc: "lab_encode t = s"
    using False by (simp add: lab_encode_def s_def)
  have "(s - 16 / 116) / 7.787 = t"
    by (simp add: s_def)
  then show ?thesis
    by (simp only: enc dec)
qed

lemma lab_a_undone: "(500 * a - 500 * b) / 500 + b = (a::real)"
  by (simp add: diff_divide_distrib)

lemma lab_b_undone: "b - (200 * b - 200 * c) / 200 = (c::real)"
  by (simp add: diff_divide_distrib)

text \<open>
  What the round trip returns in general: the components of the input scaled by 100 and
  divided by the reference white, since the last three statements of \<open>Lab_to_XYZ\<close>
  store the rescaled values on \<^verbatim>\<open>cobj\<close> and not on the object returned.
\<close>

lemma Lab_to_XYZ_XYZ_to_Lab:
  assumes "ILLUMINANTS (observer cobj) (illuminant cobj) = Some illum"
    and "illum_X illum \<noteq> 0" and "illum_Y illum \<noteq> 0" and "illum_Z illum \<noteq> 0"
  shows "\<exists>lab lab' r.
     XYZ_to_Lab ILLUMINANTS fresh1 cobj = Inr lab \<and>
     Lab_to_XYZ ILLUMINANTS fresh2 lab = Inr (lab', r) \<and>
     xyz_x r = xyz_x cobj * 100 / illum_X illum \<and>
     xyz_y r = xyz_y cobj * 100 / illum_Y illum \<and>
     xyz_z r = xyz_z cobj * 100 / illum_Z illum"
  using assms
  by (simp add: XYZ_to_Lab_def Lab_to_XYZ_def get_illuminant_xyz_def transfer_common_def
      Let_def lab_decode_encode lab_a_undone lab_b_undone)

text \<open>
  Claim C1 fails on the code. On the XYZ value (0.5, 0.5, 0.5) under D65 the round trip
  returns \<open>X = 50 / 95.047\<close>, \<open>Y = 0.5\<close>, \<open>Z = 50 / 108.883\<close>: \<open>X\<close> is off by more than
  5 percent and \<open>Z\<close> by more than 8 percent of the original.
\<close>

theorem Lab_roundtrip_fails:
  "\<exists>lab lab' r.
     XYZ_to_Lab white_table new_LabColor (xyz_d65 0.5 0.5 0.5) = Inr lab \<and>
     Lab_to_XYZ white_table new_XYZColor lab = Inr (lab', r) \<and>
     xyz_x r = 50 / 95.047 \<and> xyz_y r = 0.5 \<and> xyz_z r = 50 / 108.883 \<and>
     \<bar>xyz_x r - 0.5\<bar> > 0.05 * 0.5 \<and> \<bar>xyz_z r - 0.5\<bar> > 0.08 * 0.5"
proof -
  have "white_table (observer (xyz_d65 0.5 0.5 0.5)) (illuminant (xyz_d65 0.5 0.5 0.5))
      = Some d65_white"
    by (simp add: white_table_def xyz_d65_def)
  moreover have "illum_X d65_white \<noteq> 0" "illum_Y d65_white \<noteq> 0" "illum_Z d65_white \<noteq> 0"
    by (simp_all add: d65_white_def)
  ultimately obtain lab lab' r where
    fwd: "XYZ_to_Lab white_table new_LabColor (xyz_d65 0.5 0.5 0.5) = Inr lab" and
    bwd: "Lab_to_XYZ white_table new_XYZColor lab = Inr (lab', r)" and
    x: "xyz_x r = xyz_x (xyz_d65 0.5 0.5 0.5) * 100 / illum_X d65_white" and
    y: "xyz_y r = xyz_y (xyz_d65 0.5 0.5 0.5) * 100 / illum_Y d65_white" and
    z: "xyz_z r = xyz_z (xyz_d65 0.5 0.5 0.5) * 100 / illum_Z d65_white"
    using Lab_to_XYZ_XYZ_to_Lab [of white_table "xyz_d65 0.5 0.5 0.5" d65_white
        new_LabColor new_XYZColor]
    by blast
  have "xyz_x r = 50 / 95.047" "xyz_y r = 0.5" "xyz_z r = 50 / 108.883"
    using x y z by (simp_all add: xyz_d65_def d65_white_def)
  moreover from this have "\<bar>xyz_x r - 0.5\<bar> > 0.05 * 0.5" "\<bar>xyz_z r - 0.5\<bar> > 0.08 * 0.5"
    by simp_all
  ultimately show ?thesis
    using fwd bwd by blast
qed

subsection \<open>The argument of Lab to XYZ\<close>

text \<open>
  Claim C2 fails on \<open>Lab_to_XYZ\<close>. On the Lab value (100, 0, 0) under D65 the call
  returns the XYZ object (1, 1, 1) and leaves its argument with three attributes it did
  not have before, \<^verbatim>\<open>xyz_x\<close>, \<^verbatim>\<open>xyz_y\<close> and \<^verbatim>\<open>xyz_z\<close>, holding the rescaled values
  0.95047, 1 and 1.08883.
\<close>

theorem Lab_to_XYZ_mutates_argument:
  "\<exists>cobj' r.
     Lab_to_XYZ white_table new_XYZColor (lab_d65 100 0 0) = Inr (cobj', r) \<and>
     cobj' \<noteq> lab_d65 100 0 0 \<and>
     other_attrs (lab_d65 100 0 0) ''xyz_x'' = None \<and>
     other_attrs cobj' ''xyz_x'' = Some 0.95047 \<and>
     other_attrs cobj' ''xyz_y'' = Some 1 \<and>
     other_attrs cobj' ''xyz_z'' = Some 1.08883 \<and>
     xyz_x r = 1 \<and> xyz_y r = 1 \<and> xyz_z r = 1"
  by (simp add: Lab_to_XYZ_def get_illuminant_xyz_def transfer_common_def Let_def
      lab_decode_def white_table_def d65_white_def lab_d65_def new_XYZColor_def)

subsection \<open>XYZ to Luv and back\<close>

lemma lab_encode_eighth: "lab_encode (1 / 8) = 1 / 2"
proof -
  have e: "(0.5::real) powr 3 = 0.125" by (simp add: powr_numeral power3_eq_cube)
  have "(0.125::real) powr (1 / 3) = ((0.5::real) powr 3) powr (1 / 3)" by (simp only: e)
  also have "\<dots> = 0.5 powr (3 * (1 / 3))" by (simp only: powr_powr)
  also have "\<dots> = 0.5" by simp
  finally have "(0.125::real) powr (1 / 3) = 0.5" .
  then show ?thesis by (simp add: lab_encode_def)
qed

lemma XYZ_to_Luv_example:
  "XYZ_to_Luv white_table new_LuvColor (xyz_d65 0.2 0.125 0.3) =
     Inr \<lparr>illuminant = ''d65'', observer = ''2'', other_attrs = Map.empty,
          luv_l = 42, luv_u = 22636575 / 583372, luv_v = - (7181460 / 145843)\<rparr>"
  by (simp add: XYZ_to_Luv_def get_illuminant_xyz_def transfer_common_def Let_def
      white_table_def d65_white_def xyz_d65_def new_LuvColor_def lab_encode_eighth)

lemma Luv_to_XYZ_example:
  "Luv_to_XYZ white_table new_XYZColor
     \<lparr>illuminant = ''d65'', observer = ''2'', other_attrs = Map.empty,
      luv_l = 42, luv_u = 22636575 / 583372, luv_v = - (7181460 / 145843)\<rparr> =
     Inr \<lparr>illuminant = ''d65'', observer = ''2'', other_attrs = Map.empty,
          xyz_x = 823584 / 58739, xyz_y = 25 / 2, xyz_z = 275777 / 117478\<rparr>"
  by (simp add: Luv_to_XYZ_def get_illuminant_xyz_def transfer_common_def Let_def
      white_table_def d65_white_def new_XYZColor_def lab_decode_def power3_eq_cube)

text \<open>
  Claim C5 fails on the code. On the XYZ value (0.2, 0.125, 0.3) under D65,
  \<open>XYZ_to_Luv\<close> gives \<open>L = 42\<close>, \<open>u = 38.80\<close>, \<open>v = -49.24\<close>, and \<open>Luv_to_XYZ\<close> returns
  from it \<open>X = 14.02\<close>, \<open>Y = 12.5\<close>, \<open>Z = 2.35\<close>. \<open>Y\<close> is 100 times the original, since
  the inverse never divides by the 100 that the forward conversion multiplied by; and
  \<open>X\<close> and \<open>Z\<close> are not 100 times the original either, since \<^verbatim>\<open>var_V\<close> is computed
  from \<^verbatim>\<open>cobj.luv_u\<close>, so that \<open>v\<close> is never read.
\<close>

theorem Luv_roundtrip_fails:
  "\<exists>luv r.
     XYZ_to_Luv white_table new_LuvColor (xyz_d65 0.2 0.125 0.3) = Inr luv \<and>
     Luv_to_XYZ white_table new_XYZColor luv = Inr r \<and>
     xyz_x r = 823584 / 58739 \<and> xyz_y r = 25 / 2 \<and> xyz_z r = 275777 / 117478 \<and>
     xyz_y r = 100 * 0.125 \<and> xyz_x r < 100 * 0.2 * 0.75 \<and> xyz_z r < 100 * 0.3 * 0.1"
proof -
  let ?luv = "\<lparr>illuminant = ''d65'', observer = ''2'', other_attrs = Map.empty,
      luv_l = 42, luv_u = 22636575 / 583372, luv_v = - (7181460 / 145843)\<rparr>"
  let ?r = "\<lparr>illuminant = ''d65'', observer = ''2'', other_attrs = Map.empty,
      xyz_x = 823584 / 58739, xyz_y = 25 / 2, xyz_z = 275777 / 117478\<rparr>"
  have "XYZ_to_Luv white_table new_LuvColor (xyz_d65 0.2 0.125 0.3) = Inr ?luv"
    by (rule XYZ_to_Luv_example)
  moreover have "Luv_to_XYZ white_table new_XYZColor ?luv = Inr ?r"
    by (rule Luv_to_XYZ_example)
  moreover have "xyz_x ?r = 823584 / 58739 \<and> xyz_y ?r = 25 / 2 \<and>
      xyz_z ?r = 275777 / 117478 \<and> xyz_y ?r = 100 * 0.125 \<and>
      xyz_x ?r < 100 * 0.2 * 0.75 \<and> xyz_z ?r < 100 * 0.3 * 0.1"
    by simp
  ultimately show ?thesis by blast
qed

text \<open>The inverse does not depend on \<open>v\<close> at all.\<close>

lemma Luv_to_XYZ_ignores_v:
  "Luv_to_XYZ ILLUMINANTS fresh (cobj\<lparr>luv_v := v\<rparr>) = Luv_to_XYZ ILLUMINANTS fresh cobj"
  by (simp add: Luv_to_XYZ_def get_illuminant_xyz_def transfer_common_def Let_def
      split: option.splits)

subsection \<open>RGB to CMY\<close>

lemma RGB_to_CMY_floats:
  "RGB_to_CMY fresh (cobj\<lparr>rgb_r := PyFloat r, rgb_g := PyFloat g, rgb_b := PyFloat b\<rparr>) cdict =
     Inr ((transfer_common cobj fresh)
       \<lparr>cmy_c := PyFloat (1 - r / 255), cmy_m := PyFloat (1 - g / 255),
        cmy_y := PyFloat (1 - b / 255)\<rparr>)"
  by (simp add: RGB_to_CMY_def transfer_common_def Let_def)

lemma RGB_to_CMY_ints:
  "RGB_to_CMY fresh (cobj\<lparr>rgb_r := PyInt r, rgb_g := PyInt g, rgb_b := PyInt b\<rparr>) cdict =
     Inr ((transfer_common cobj fresh)
       \<lparr>cmy_c := PyInt (1 - r div 255), cmy_m := PyInt (1 - g div 255),
        cmy_y := PyInt (1 - b div 255)\<rparr>)"
  by (simp add: RGB_to_CMY_def transfer_common_def Let_def)

text \<open>
  Claim C7 fails on the code for int channels, the channels that \<open>XYZ_to_RGB\<close>
  produces. On the RGB value (128, 128, 128) the quotient \<^verbatim>\<open>cobj.rgb_r / 255\<close> is the
  floor division of Python 2, which is 0, and \<open>RGB_to_CMY\<close> returns \<open>C = M = Y = 1\<close>,
  not 127/255.
\<close>

theorem RGB_to_CMY_int_division:
  "RGB_to_CMY new_CMYColor (rgb_d65 (PyInt 128) (PyInt 128) (PyInt 128)) () =
     Inr (cmy_d65 (PyInt 1) (PyInt 1) (PyInt 1)) \<and>
   val (cmy_c (cmy_d65 (PyInt 1) (PyInt 1) (PyInt 1))) = 1 \<and>
   val (cmy_c (cmy_d65 (PyInt 1) (PyInt 1) (PyInt 1))) \<noteq> 127 / 255"
  by (simp add: RGB_to_CMY_def transfer_common_def Let_def new_CMYColor_def rgb_d65_def
      cmy_d65_def)

subsection \<open>CMY to CMYK\<close>

lemma CMY_to_CMYK_k: "cmyk_k (CMY_to_CMYK fresh cobj cdict) = cmyk_k fresh"
  by (simp add: CMY_to_CMYK_def transfer_common_def Let_def)

text \<open>
  Claim C3 fails on the code in the fourth component. \<open>CMY_to_CMYK\<close> maps (1, 1, 1)
  and (0, 0, 0) to \<open>C' = M' = Y' = 0\<close>, as claimed, but \<open>K\<close> is never assigned: in both
  results it is what the constructor left in the new object, so that it cannot be 1 in
  the first and 0 in the second.
\<close>

theorem CMY_to_CMYK_k_unassigned:
  "CMY_to_CMYK fresh (cmy_d65 (PyFloat 1) (PyFloat 1) (PyFloat 1)) cdict =
     fresh\<lparr>illuminant := ''d65'', observer := ''2'', cmyk_c := 0, cmyk_m := 0, cmyk_y := 0\<rparr> \<and>
   CMY_to_CMYK fresh (cmy_d65 (PyFloat 0) (PyFloat 0) (PyFloat 0)) cdict =
     fresh\<lparr>illuminant := ''d65'', observer := ''2'', cmyk_c := 0, cmyk_m := 0, cmyk_y := 0\<rparr> \<and>
   cmyk_k (CMY_to_CMYK fresh (cmy_d65 (PyFloat 1) (PyFloat 1) (PyFloat 1)) cdict) = cmyk_k fresh \<and>
   cmyk_k (CMY_to_CMYK fresh (cmy_d65 (PyFloat 0) (PyFloat 0) (PyFloat 0)) cdict) = cmyk_k fresh"
  by (simp add: CMY_to_CMYK_def transfer_common_def Let_def cmy_d65_def)

text \<open>Away from \<open>K\<close>, the three channels are as the spec has them.\<close>

lemma CMY_to_CMYK_channels:
  fixes cobj :: CMYColor
  defines "k \<equiv> min 1 (min (val (cmy_c cobj)) (min (val (cmy_m cobj)) (val (cmy_y cobj))))"
  shows "cmyk_c (CMY_to_CMYK fresh cobj cdict) =
           (if k = 1 then 0 else (val (cmy_c cobj) - k) / (1 - k))"
    and "cmyk_m (CMY_to_CMYK fresh cobj cdict) =
           (if k = 1 then 0 else (val (cmy_m cobj) - k) / (1 - k))"
    and "cmyk_y (CMY_to_CMYK fresh cobj cdict) =
           (if k = 1 then 0 else (val (cmy_y cobj) - k) / (1 - k))"
  unfolding k_def
  by (auto simp: CMY_to_CMYK_def transfer_common_def Let_def min_def)

subsection \<open>XYZ to RGB\<close>

lemma lower_sRGB: "lower ''sRGB'' = ''srgb''"
  by code_simp

lemma lower_srgb: "lower ''srgb'' = ''srgb''"
  by code_simp

lemma lower_XYZ_to_RGB: "lower ''XYZ_to_RGB'' = ''xyz_to_rgb''"
  by code_simp

lemma lower_bradford: "lower ''bradford'' = ''bradford''"
  by code_simp

lemma lower_d50: "lower ''d50'' = ''d50''"
  by code_simp

lemma lower_d65: "lower ''d65'' = ''d65''"
  by code_simp

text \<open>
  Whatever the tables and the colour: when the illuminant of the input is the native
  illuminant of the target space, the locals \<^verbatim>\<open>temp_X\<close>, \<^verbatim>\<open>temp_Y\<close>, \<^verbatim>\<open>temp_Z\<close> are
  never assigned and the call of \<^verbatim>\<open>apply_RGB_matrix\<close> raises.
\<close>

lemma XYZ_to_RGB_unbound_local:
  assumes "RGB_SPECS (lower target_rgb) = Some spec"
    and "illuminant cobj = native_illum spec"
    and "ILLUMINANTS (observer cobj) (illuminant cobj) = Some w"
  shows "XYZ_to_RGB RGB_SPECS ADAPTATION_MATRICES ILLUMINANTS fresh cobj target_rgb =
           Inl UnboundLocalError"
  using assms by (simp add: XYZ_to_RGB_def get_illuminant_xyz_def Let_def)

text \<open>
  Claim C4 fails on the code. On the D65 white (0.95047, 1, 1.08883) and on black
  (0, 0, 0), both under D65, with target sRGB whose native illuminant is D65,
  \<open>XYZ_to_RGB\<close> raises \<open>UnboundLocalError\<close> and returns no RGB value.
\<close>

theorem XYZ_to_RGB_native_illuminant_raises:
  "XYZ_to_RGB example_specs example_adaptation white_table new_RGBColor
     (xyz_d65 0.95047 1 1.08883) ''sRGB'' = Inl UnboundLocalError \<and>
   XYZ_to_RGB example_specs example_adaptation white_table new_RGBColor
     (xyz_d65 0 0 0) ''sRGB'' = Inl UnboundLocalError"
proof -
  let ?spec = "\<lparr>native_illum = ''d65'', gamma = 2.2,
      conversions = [''xyz_to_rgb'' \<mapsto> unit_matrix]\<rparr>"
  have spec: "example_specs (lower ''sRGB'') = Some ?spec"
    by (simp add: example_specs_def lower_sRGB)
  have ill: "illuminant (xyz_d65 x y z) = native_illum ?spec" for x y z
    by (simp add: xyz_d65_def)
  have w: "white_table (observer (xyz_d65 x y z)) (illuminant (xyz_d65 x y z)) = Some d65_white"
    for x y z
    by (simp add: white_table_def xyz_d65_def)
  show ?thesis
    using spec ill w
      XYZ_to_RGB_unbound_local [of example_specs "''sRGB''" ?spec "xyz_d65 0.95047 1 1.08883"
        white_table d65_white example_adaptation new_RGBColor]
      XYZ_to_RGB_unbound_local [of example_specs "''sRGB''" ?spec "xyz_d65 0 0 0"
        white_table d65_white example_adaptation new_RGBColor]
    by simp
qed

text \<open>
  When the illuminants differ and the lookups succeed, the sRGB branch encodes the
  linear channels \<open>r\<close>, \<open>g\<close>, \<open>b\<close> by \<open>srgb_compand\<close> before the scaling to 0 to 255.
\<close>

lemma XYZ_to_RGB_srgb:
  assumes "lower target_rgb = ''srgb''"
    and "RGB_SPECS ''srgb'' = Some spec"
    and "illuminant cobj \<noteq> native_illum spec"
    and "ILLUMINANTS (observer cobj) (illuminant cobj) = Some w"
    and "apply_XYZ_transformation ADAPTATION_MATRICES cobj (illuminant cobj)
           (native_illum spec) ''bradford'' = Inr (temp_X, temp_Y, temp_Z)"
    and "apply_RGB_matrix RGB_SPECS temp_X temp_Y temp_Z ''srgb'' ''XYZ_to_RGB'' = Inr (r, g, b)"
  shows "XYZ_to_RGB RGB_SPECS ADAPTATION_MATRICES ILLUMINANTS fresh cobj target_rgb =
           Inr ((transfer_common cobj fresh)
             \<lparr>rgb_r := PyInt (scale_channel (srgb_compand r)),
              rgb_g := PyInt (scale_channel (srgb_compand g)),
              rgb_b := PyInt (scale_channel (srgb_compand b))\<rparr>)"
  using assms by (simp add: XYZ_to_RGB_def get_illuminant_xyz_def Let_def)

text \<open>
  Claim C9. In \<open>XYZ_to_RGB\<close> with target sRGB, each linear channel is encoded by
  \<open>srgb_compand\<close>; a linear channel exactly equal to 0.0031308 is encoded by the linear
  branch \<open>v * 12.92\<close>, the comparison being a strict greater-than, and any value
  strictly above the threshold is encoded as \<open>1.055 * v^(1/2.4) - 0.055\<close>.
\<close>

theorem XYZ_to_RGB_srgb_threshold:
  "(lower target_rgb = ''srgb'' \<and> RGB_SPECS ''srgb'' = Some spec \<and>
    illuminant cobj \<noteq> native_illum spec \<and>
    ILLUMINANTS (observer cobj) (illuminant cobj) = Some w \<and>
    apply_XYZ_transformation ADAPTATION_MATRICES cobj (illuminant cobj)
      (native_illum spec) ''bradford'' = Inr (temp_X, temp_Y, temp_Z) \<and>
    apply_RGB_matrix RGB_SPECS temp_X temp_Y temp_Z ''srgb'' ''XYZ_to_RGB'' = Inr (r, g, b)
    \<longrightarrow>
    XYZ_to_RGB RGB_SPECS ADAPTATION_MATRICES ILLUMINANTS fresh cobj target_rgb =
      Inr ((transfer_common cobj fresh)
        \<lparr>rgb_r := PyInt (scale_channel (srgb_compand r)),
         rgb_g := PyInt (scale_channel (srgb_compand g)),
         rgb_b := PyInt (scale_channel (srgb_compand b))\<rparr>)) \<and>
   srgb_compand 0.0031308 = 0.0031308 * 12.92 \<and>
   (v > 0.0031308 \<longrightarrow> srgb_compand v = 1.055 * v powr (1 / 2.4) - 0.055) \<and>
   (v \<le> 0.0031308 \<longrightarrow> srgb_compand v = v * 12.92)"
  using XYZ_to_RGB_srgb [of target_rgb RGB_SPECS spec cobj ILLUMINANTS w ADAPTATION_MATRICES
      temp_X temp_Y temp_Z r g b fresh]
  by (simp add: srgb_compand_def)

theorem XYZ_to_RGB_srgb_threshold_witness:
  "XYZ_to_RGB example_specs example_adaptation white_table new_RGBColor
     (xyz_d50 0.0031308 0.5 0) ''sRGB'' =
     Inr \<lparr>illuminant = ''d50'', observer = ''2'', other_attrs = Map.empty,
          rgb_r = PyInt 10,
          rgb_g = PyInt (scale_channel (1.055 * 0.5 powr (1 / 2.4) - 0.055)),
          rgb_b = PyInt 0\<rparr> \<and>
   srgb_compand 0.0031308 = 0.0031308 * 12.92 \<and>
   srgb_compand 0.5 = 1.055 * 0.5 powr (1 / 2.4) - 0.055 \<and>
   srgb_compand 0 = 0 * 12.92"
proof -
  let ?spec = "\<lparr>native_illum = ''d65'', gamma = 2.2,
      conversions = [''xyz_to_rgb'' \<mapsto> unit_matrix]\<rparr>"
  let ?cobj = "xyz_d50 0.0031308 0.5 0"
  have a: "lower ''sRGB'' = ''srgb'' \<and> example_specs ''srgb'' = Some ?spec \<and>
      illuminant ?cobj \<noteq> native_illum ?spec \<and>
      white_table (observer ?cobj) (illuminant ?cobj) = Some d50_white \<and>
      apply_XYZ_transformation example_adaptation ?cobj (illuminant ?cobj)
        (native_illum ?spec) ''bradford'' = Inr (0.0031308, 0.5, 0) \<and>
      apply_RGB_matrix example_specs 0.0031308 0.5 0 ''srgb'' ''XYZ_to_RGB'' =
        Inr (0.0031308, 0.5, 0)"
    by (simp add: lower_sRGB lower_srgb lower_XYZ_to_RGB lower_bradford lower_d50 lower_d65
        example_specs_def example_adaptation_def white_table_def xyz_d50_def unit_matrix_def
        apply_XYZ_transformation_def apply_RGB_matrix_def)
  note above = XYZ_to_RGB_srgb_threshold [of "''sRGB''" example_specs ?spec ?cobj white_table
      d50_white example_adaptation "0.0031308" "0.5" 0 "0.0031308" "0.5" 0 new_RGBColor "0.5"]
  note below = XYZ_to_RGB_srgb_threshold [of "''sRGB''" example_specs ?spec ?cobj white_table
      d50_white example_adaptation "0.0031308" "0.5" 0 "0.0031308" "0.5" 0 new_RGBColor 0]
  have main: "XYZ_to_RGB example_specs example_adaptation white_table new_RGBColor ?cobj
      ''sRGB'' =
      Inr ((transfer_common ?cobj new_RGBColor)
        \<lparr>rgb_r := PyInt (scale_channel (srgb_compand 0.0031308)),
         rgb_g := PyInt (scale_channel (srgb_compand 0.5)),
         rgb_b := PyInt (scale_channel (srgb_compand 0))\<rparr>)"
    by (rule above [THEN conjunct1, THEN mp, OF a])
  have at: "srgb_compand 0.0031308 = 0.0031308 * 12.92"
    by (rule above [THEN conjunct2, THEN conjunct1])
  have up: "srgb_compand 0.5 = 1.055 * 0.5 powr (1 / 2.4) - 0.055"
    by (rule above [THEN conjunct2, THEN conjunct2, THEN conjunct1, THEN mp]) simp
  have down: "srgb_compand 0 = 0 * 12.92"
    by (rule below [THEN conjunct2, THEN conjunct2, THEN conjunct2, THEN mp]) simp
  have r: "scale_channel (srgb_compand 0.0031308) = 10"
    by (simp only: at) (simp add: scale_channel_def Let_def)
  have b: "scale_channel (srgb_compand 0) = 0"
    by (simp only: down) (simp add: scale_channel_def Let_def)
  have "XYZ_to_RGB example_specs example_adaptation white_table new_RGBColor ?cobj ''sRGB'' =
      Inr \<lparr>illuminant = ''d50'', observer = ''2'', other_attrs = Map.empty,
          rgb_r = PyInt 10,
          rgb_g = PyInt (scale_channel (1.055 * 0.5 powr (1 / 2.4) - 0.055)),
          rgb_b = PyInt 0\<rparr>"
    by (simp only: main r b up) (simp add: transfer_common_def new_RGBColor_def xyz_d50_def)
  then show ?thesis
    using at up down by blast
qed

end
